theory Spec2Isabelle
  imports Main
begin

section \<open>Data model (models/models.go)\<close>

text \<open>
  The Go program keeps all of its state in a relational datastore reached through GORM.
  The embedding below makes that state an explicit value, \<open>datastore\<close>, and every
  repository or service function a pure function that takes the state and returns the
  new one together with the Go return value.

  \<^item> Every Go \<open>error\<close> value the code handles is a constructor of \<open>error\<close>: the six
    sentinels of models.go, \<open>gorm.ErrRecordNotFound\<close>, and \<open>ErrDatastore c\<close> for any
    other error the driver reports (connectivity loss, lock timeout, a failed commit,
    a value out of the column's range), with an opaque code \<open>c\<close>.
  \<^item> Identifiers are Go \<open>uint\<close>; no arithmetic is done on them, they are \<open>nat\<close>.
  \<^item> \<open>Capacity\<close> and \<open>AvailableSeats\<close> are Go \<open>int\<close>. The datastore computes
    \<open>available_seats - 1\<close> and \<open>available_seats + 1\<close> itself and reports an error
    rather than wrapping, so the tables hold unbounded \<open>int\<close> and a range error is one
    of the injected datastore errors. The subtractions written in Go (UpdateEvent) wrap at
    64 bits and are modelled by \<open>go_sub\<close>.
  \<^item> \<open>CreatedAt\<close> and \<open>UpdatedAt\<close> are not modelled (no claim reads a clock), nor is the
    serial id of a registration row. \<open>DeletedAt\<close> is modelled as a flag: all three models
    carry \<open>gorm.DeletedAt\<close>, so GORM's \<open>Delete\<close> marks a row instead of removing it,
    and every query and update GORM builds for the model skips marked rows.
\<close>

datatype error =
    ErrAlreadyRegistered
  | ErrEventFull
  | ErrEventNotFound
  | ErrUserNotFound
  | ErrUnauthorized
  | ErrInvalidInput
  | ErrRecordNotFound
  | ErrDatastore nat

record Event =
  ID :: nat
  Title :: string
  Capacity :: int
  AvailableSeats :: int
  OrganizerID :: nat
  EventDeleted :: bool

record Registration =
  UserID :: nat
  EventID :: nat
  RegDeleted :: bool

text \<open>
  The datastore: the ids of the users whose row is not marked deleted, the events table
  keyed by its primary key, the registrations table in insertion order, the next value of
  the events' id sequence, and one fact of the schema: whether the registrations table
  carries the constraint \<open>UNIQUE(user_id, event_id)\<close>. The README's schema and the spec
  declare it, the struct tags of models.go do not, so it is a field of the state and
  every theorem says which schema it is about (or holds for both).
\<close>

record datastore =
  users :: "nat set"
  events :: "nat \<rightharpoonup> Event"
  registrations :: "Registration list"
  next_event_id :: nat
  unique_user_event :: bool

text \<open>
  The statements the code sends. A \<open>faults\<close> function says, for each of them, whether
  the datastore fails it and with which code; \<open>no_faults\<close> is a datastore that executes
  every statement.
\<close>

datatype db_op =
    OpFindUser
  | OpFindRegistration
  | OpLockEvent
  | OpCreateRegistration
  | OpDecreaseSeats
  | OpDeleteRegistration
  | OpIncreaseSeats
  | OpCommit
  | OpFindEvent
  | OpCreateEvent
  | OpSaveEvent

type_synonym faults = "db_op \<Rightarrow> nat option"

definition no_faults :: faults where
  "no_faults = (\<lambda>_. None)"

section \<open>Transactions\<close>

text \<open>
  \<open>s.db.Begin()\<close> opens a transaction: the model keeps the state at Begin and the state
  the transaction has written so far. Rollback returns the former, a successful Commit
  the latter. A Commit the datastore fails leaves the committed state as it was. The model
  is sequential: no other transaction runs between Begin and the end of the call.
\<close>

record tx =
  committed :: datastore
  pending :: datastore

definition Begin :: "datastore \<Rightarrow> tx" where
  "Begin db = \<lparr>committed = db, pending = db\<rparr>"

definition Rollback :: "tx \<Rightarrow> datastore" where
  "Rollback t = committed t"

definition Commit :: "faults \<Rightarrow> tx \<Rightarrow> error option \<times> datastore" where
  "Commit F t =
     (case F OpCommit of
        Some c \<Rightarrow> (Some (ErrDatastore c), committed t)
      | None \<Rightarrow> (None, pending t))"

section \<open>Statements (GORM calls)\<close>

text \<open>\<open>First(&event, id)\<close>: the row with that primary key, unless marked deleted.\<close>

definition live_event :: "datastore \<Rightarrow> nat \<Rightarrow> Event option" where
  "live_event db i =
     (case events db i of
        None \<Rightarrow> None
      | Some e \<Rightarrow> if EventDeleted e then None else Some e)"

text \<open>\<open>Where("user_id = ? AND event_id = ?", u, e)\<close> on the registrations model.\<close>

definition matches :: "nat \<Rightarrow> nat \<Rightarrow> Registration \<Rightarrow> bool" where
  "matches u e r = (UserID r = u \<and> EventID r = e)"

definition live_match :: "nat \<Rightarrow> nat \<Rightarrow> Registration \<Rightarrow> bool" where
  "live_match u e r = (matches u e r \<and> \<not> RegDeleted r)"

text \<open>\<open>userRepo.FindByID\<close> (user_repository.go): only the error is used by the caller.\<close>

definition userRepo_FindByID :: "faults \<Rightarrow> datastore \<Rightarrow> nat \<Rightarrow> error option" where
  "userRepo_FindByID F db i =
     (case F OpFindUser of
        Some c \<Rightarrow> Some (ErrDatastore c)
      | None \<Rightarrow> if i \<in> users db then None else Some ErrRecordNotFound)"

text \<open>\<open>tx.Where(...).First(&existingReg)\<close> (registration_service.go, line 86).\<close>

definition First_registration :: "faults \<Rightarrow> datastore \<Rightarrow> nat \<Rightarrow> nat \<Rightarrow> error + Registration" where
  "First_registration F db u e =
     (case F OpFindRegistration of
        Some c \<Rightarrow> Inl (ErrDatastore c)
      | None \<Rightarrow>
          (case find (live_match u e) (registrations db) of
             None \<Rightarrow> Inl ErrRecordNotFound
           | Some r \<Rightarrow> Inr r))"

text \<open>\<open>eventRepo.FindByIDForUpdate\<close> (event_repository.go, lines 73-85).\<close>

definition FindByIDForUpdate :: "faults \<Rightarrow> tx \<Rightarrow> nat \<Rightarrow> error + Event" where
  "FindByIDForUpdate F t i =
     (case F OpLockEvent of
        Some c \<Rightarrow> Inl (ErrDatastore c)
      | None \<Rightarrow>
          (case live_event (pending t) i of
             None \<Rightarrow> Inl ErrRecordNotFound
           | Some e \<Rightarrow> Inr e))"

text \<open>
  \<open>tx.Clauses(clause.OnConflict{DoNothing: true}).Create(registration)\<close>: INSERT ... ON
  CONFLICT DO NOTHING. Under the uniqueness constraint a row with the same pair, marked
  deleted or not, makes the insert a no-op that reports no error.
\<close>

definition insert_conflicts :: "datastore \<Rightarrow> nat \<Rightarrow> nat \<Rightarrow> bool" where
  "insert_conflicts db u e =
     (unique_user_event db \<and> list_ex (matches u e) (registrations db))"

definition Create_registration :: "faults \<Rightarrow> tx \<Rightarrow> Registration \<Rightarrow> error + tx" where
  "Create_registration F t r =
     (case F OpCreateRegistration of
        Some c \<Rightarrow> Inl (ErrDatastore c)
      | None \<Rightarrow>
          if insert_conflicts (pending t) (UserID r) (EventID r) then Inr t
          else Inr (t\<lparr>pending := (pending t)\<lparr>registrations := registrations (pending t) @ [r]\<rparr>\<rparr>))"

text \<open>
  \<open>tx.Model(&models.Event{}).Where("id = ? AND available_seats > 0", id)
  .Update("available_seats", gorm.Expr("available_seats - 1"))\<close>: the conditional
  decrement, with the number of rows it affected.
\<close>

definition decrease_seats :: "faults \<Rightarrow> tx \<Rightarrow> nat \<Rightarrow> error + (nat \<times> tx)" where
  "decrease_seats F t i =
     (case F OpDecreaseSeats of
        Some c \<Rightarrow> Inl (ErrDatastore c)
      | None \<Rightarrow>
          (case live_event (pending t) i of
             None \<Rightarrow> Inr (0, t)
           | Some e \<Rightarrow>
               if 0 < AvailableSeats e
               then Inr (1, t\<lparr>pending := (pending t)\<lparr>events :=
                      (events (pending t))(i \<mapsto> e\<lparr>AvailableSeats := AvailableSeats e - 1\<rparr>)\<rparr>\<rparr>)
               else Inr (0, t)))"

text \<open>
  \<open>tx.Model(&models.Event{}).Where("id = ?", id)
  .Update("available_seats", gorm.Expr("available_seats + 1"))\<close>: the increment.
\<close>

definition increase_seats :: "faults \<Rightarrow> tx \<Rightarrow> nat \<Rightarrow> error + (nat \<times> tx)" where
  "increase_seats F t i =
     (case F OpIncreaseSeats of
        Some c \<Rightarrow> Inl (ErrDatastore c)
      | None \<Rightarrow>
          (case live_event (pending t) i of
             None \<Rightarrow> Inr (0, t)
           | Some e \<Rightarrow>
               Inr (1, t\<lparr>pending := (pending t)\<lparr>events :=
                      (events (pending t))(i \<mapsto> e\<lparr>AvailableSeats := AvailableSeats e + 1\<rparr>)\<rparr>\<rparr>)))"

text \<open>
  \<open>tx.Where("user_id = ? AND event_id = ?", u, e).Delete(&models.Registration{})\<close>:
  marks every matching row that is not yet marked.
\<close>

definition mark_deleted :: "nat \<Rightarrow> nat \<Rightarrow> Registration \<Rightarrow> Registration" where
  "mark_deleted u e r = (if live_match u e r then r\<lparr>RegDeleted := True\<rparr> else r)"

definition Delete_registration :: "faults \<Rightarrow> tx \<Rightarrow> nat \<Rightarrow> nat \<Rightarrow> error + tx" where
  "Delete_registration F t u e =
     (case F OpDeleteRegistration of
        Some c \<Rightarrow> Inl (ErrDatastore c)
      | None \<Rightarrow>
          Inr (t\<lparr>pending := (pending t)\<lparr>registrations :=
                 map (mark_deleted u e) (registrations (pending t))\<rparr>\<rparr>))"

section \<open>The Seat Ledger's reserve operation (event_repository.go)\<close>

text \<open>\<open>eventRepo.DecreaseAvailableSeats\<close>, lines 89-105.\<close>

definition DecreaseAvailableSeats :: "faults \<Rightarrow> tx \<Rightarrow> nat \<Rightarrow> error option \<times> tx" where
  "DecreaseAvailableSeats F t i =
     (case decrease_seats F t i of
        Inl err \<Rightarrow> (Some err, t)
      | Inr (rows, t') \<Rightarrow> if rows = 0 then (Some ErrEventFull, t') else (None, t'))"

section \<open>The Registration Coordinator (registration_service.go)\<close>

text \<open>\<open>RegisterForEvent\<close>, lines 70-158. The result is the Go pair (registration, err).\<close>

definition RegisterForEvent ::
  "faults \<Rightarrow> datastore \<Rightarrow> nat \<Rightarrow> nat \<Rightarrow> (error + Registration) \<times> datastore" where
  "RegisterForEvent F db userID eventID =
     (case userRepo_FindByID F db userID of
        Some err \<Rightarrow>
          if err = ErrRecordNotFound then (Inl ErrUserNotFound, db) else (Inl err, db)
      | None \<Rightarrow>
          let t = Begin db in
          (case First_registration F (pending t) userID eventID of
             Inr existingReg \<Rightarrow> (Inl ErrAlreadyRegistered, Rollback t)
           | Inl err \<Rightarrow>
               if err \<noteq> ErrRecordNotFound then (Inl err, Rollback t)
               else
                 (case FindByIDForUpdate F t eventID of
                    Inl err \<Rightarrow>
                      if err = ErrRecordNotFound then (Inl ErrEventNotFound, Rollback t)
                      else (Inl err, Rollback t)
                  | Inr event \<Rightarrow>
                      if AvailableSeats event \<le> 0 then (Inl ErrEventFull, Rollback t)
                      else
                        let registration = \<lparr>UserID = userID, EventID = eventID, RegDeleted = False\<rparr> in
                        (case Create_registration F t registration of
                           Inl err \<Rightarrow> (Inl err, Rollback t)
                         | Inr t1 \<Rightarrow>
                             (case decrease_seats F t1 eventID of
                                Inl err \<Rightarrow> (Inl err, Rollback t1)
                              | Inr (rows, t2) \<Rightarrow>
                                  if rows = 0 then (Inl ErrEventFull, Rollback t2)
                                  else
                                    (case Commit F t2 of
                                       (Some err, db') \<Rightarrow> (Inl err, db')
                                     | (None, db') \<Rightarrow> (Inr registration, db')))))))"

text \<open>\<open>CancelRegistration\<close>, lines 176-198. The result is the Go error (None is nil).\<close>

definition CancelRegistration ::
  "faults \<Rightarrow> datastore \<Rightarrow> nat \<Rightarrow> nat \<Rightarrow> error option \<times> datastore" where
  "CancelRegistration F db userID eventID =
     (let t = Begin db in
      case Delete_registration F t userID eventID of
        Inl err \<Rightarrow> (Some err, Rollback t)
      | Inr t1 \<Rightarrow>
          (case increase_seats F t1 eventID of
             Inl err \<Rightarrow> (Some err, Rollback t1)
           | Inr (rows, t2) \<Rightarrow> Commit F t2))"

section \<open>Observations\<close>

text \<open>The seats of an event that is not marked deleted, and its live registrations.\<close>

definition available_seats :: "datastore \<Rightarrow> nat \<Rightarrow> int option" where
  "available_seats db i = map_option AvailableSeats (live_event db i)"

definition live_registrations :: "datastore \<Rightarrow> nat \<Rightarrow> Registration list" where
  "live_registrations db i =
     filter (\<lambda>r. EventID r = i \<and> \<not> RegDeleted r) (registrations db)"

text \<open>
  The Seat Ledger invariant \<open>0 \<le> available_seats \<le> capacity\<close> and the core invariant
  \<open>capacity - available_seats = count(live registrations)\<close>, for the event with id \<open>i\<close>
  (an id with no live event has nothing to violate).
\<close>

definition ledger_invariant :: "datastore \<Rightarrow> nat \<Rightarrow> bool" where
  "ledger_invariant db i =
     (case live_event db i of
        None \<Rightarrow> True
      | Some e \<Rightarrow> 0 \<le> AvailableSeats e \<and> AvailableSeats e \<le> Capacity e)"

definition seat_invariant :: "datastore \<Rightarrow> nat \<Rightarrow> bool" where
  "seat_invariant db i =
     (case live_event db i of
        None \<Rightarrow> True
      | Some e \<Rightarrow> Capacity e - AvailableSeats e = int (length (live_registrations db i)))"

section \<open>The request handler of cancel (registration_handler.go)\<close>

text \<open>
  \<open>RegistrationHandler.CancelRegistration\<close>: the body is what \<open>ShouldBindJSON\<close> read,
  \<open>None\<close> when it is not JSON of the request's shape; both fields are
  \<open>binding:"required"\<close>, which refuses the zero value. The result is the HTTP status.
\<close>

definition RegistrationHandler_CancelRegistration ::
  "faults \<Rightarrow> datastore \<Rightarrow> (nat \<times> nat) option \<Rightarrow> nat \<times> datastore" where
  "RegistrationHandler_CancelRegistration F db body =
     (case body of
        None \<Rightarrow> (400, db)
      | Some (user_id, event_id) \<Rightarrow>
          if user_id = 0 \<or> event_id = 0 then (400, db)
          else
            (case CancelRegistration F db user_id event_id of
               (Some err, db') \<Rightarrow> (500, db')
             | (None, db') \<Rightarrow> (200, db')))"

section \<open>Creating and updating events (event_repository.go, event_service.go, event_handler.go)\<close>

text \<open>Go's \<open>int\<close> subtraction: 64 bits, two's complement, wrapping.\<close>

definition wrap64 :: "int \<Rightarrow> int" where
  "wrap64 x = (x + 2 ^ 63) mod 2 ^ 64 - 2 ^ 63"

definition go_sub :: "int \<Rightarrow> int \<Rightarrow> int" where
  "go_sub a b = wrap64 (a - b)"

text \<open>
  \<open>eventRepo.Create\<close>: \<open>db.Create(event)\<close> inserts the row under the id of the struct,
  or under the next value of the sequence when that id is zero, and writes the id back into
  the struct. A primary key already in the table is the driver's unique-violation error.
\<close>

definition duplicate_key :: nat where
  "duplicate_key = 23505"

definition eventRepo_Create :: "faults \<Rightarrow> datastore \<Rightarrow> Event \<Rightarrow> error option \<times> datastore \<times> Event" where
  "eventRepo_Create F db event =
     (case F OpCreateEvent of
        Some c \<Rightarrow> (Some (ErrDatastore c), db, event)
      | None \<Rightarrow>
          let i = (if ID event = 0 then next_event_id db else ID event);
              db1 = (if ID event = 0 then db\<lparr>next_event_id := next_event_id db + 1\<rparr> else db)
          in if events db i \<noteq> None then (Some (ErrDatastore duplicate_key), db1, event)
             else (None, db1\<lparr>events := (events db1)(i \<mapsto> event\<lparr>ID := i\<rparr>)\<rparr>, event\<lparr>ID := i\<rparr>))"

text \<open>\<open>eventRepo.FindByID\<close>: \<open>First(&event, id)\<close>.\<close>

definition eventRepo_FindByID :: "faults \<Rightarrow> datastore \<Rightarrow> nat \<Rightarrow> error + Event" where
  "eventRepo_FindByID F db i =
     (case F OpFindEvent of
        Some c \<Rightarrow> Inl (ErrDatastore c)
      | None \<Rightarrow>
          (case live_event db i of
             None \<Rightarrow> Inl ErrRecordNotFound
           | Some e \<Rightarrow> Inr e))"

text \<open>
  \<open>eventRepo.Update\<close>: \<open>db.Save(event)\<close> writes every field of the struct, zero values
  included, to the row with the struct's primary key (inserting the row when the update
  matched none); with a zero primary key it is a Create.
\<close>

definition eventRepo_Update :: "faults \<Rightarrow> datastore \<Rightarrow> Event \<Rightarrow> error option \<times> datastore" where
  "eventRepo_Update F db event =
     (case F OpSaveEvent of
        Some c \<Rightarrow> (Some (ErrDatastore c), db)
      | None \<Rightarrow>
          if ID event = 0
          then (case eventRepo_Create F db event of (err, db', _) \<Rightarrow> (err, db'))
          else (None, db\<lparr>events := (events db)(ID event \<mapsto> event)\<rparr>))"

text \<open>event_service.go: \<open>CreateEvent\<close> (lines 28-32), \<open>GetEventByID\<close>, \<open>UpdateEvent\<close>.\<close>

definition eventService_CreateEvent ::
  "faults \<Rightarrow> datastore \<Rightarrow> Event \<Rightarrow> error option \<times> datastore \<times> Event" where
  "eventService_CreateEvent F db event =
     eventRepo_Create F db (event\<lparr>AvailableSeats := Capacity event\<rparr>)"

definition eventService_GetEventByID :: "faults \<Rightarrow> datastore \<Rightarrow> nat \<Rightarrow> error + Event" where
  "eventService_GetEventByID F db i = eventRepo_FindByID F db i"

definition eventService_UpdateEvent :: "faults \<Rightarrow> datastore \<Rightarrow> Event \<Rightarrow> error option \<times> datastore" where
  "eventService_UpdateEvent F db event = eventRepo_Update F db event"

text \<open>
  The fields of \<open>models.Event\<close> a JSON body can set (\<open>DeletedAt\<close> is tagged \<open>json:"-"\<close>),
  and the struct \<open>ShouldBindJSON\<close> fills from them. A field the body leaves out is zero.
\<close>

record EventJSON =
  json_id :: nat
  json_title :: string
  json_capacity :: int
  json_available_seats :: int
  json_organizer_id :: nat

definition bind_event :: "EventJSON \<Rightarrow> Event" where
  "bind_event j =
     \<lparr>ID = json_id j, Title = json_title j, Capacity = json_capacity j,
      AvailableSeats = json_available_seats j, OrganizerID = json_organizer_id j,
      EventDeleted = False\<rparr>"

text \<open>A response: the HTTP status and, on success, the event written as JSON.\<close>

datatype response = Response nat "Event option"

text \<open>\<open>EventHandler.CreateEvent\<close>, event_handler.go lines 26-48.\<close>

definition EventHandler_CreateEvent ::
  "faults \<Rightarrow> datastore \<Rightarrow> EventJSON option \<Rightarrow> response \<times> datastore" where
  "EventHandler_CreateEvent F db body =
     (case body of
        None \<Rightarrow> (Response 400 None, db)
      | Some j \<Rightarrow>
          let event = bind_event j in
          if Capacity event \<le> 0 then (Response 400 None, db)
          else
            let event = event\<lparr>AvailableSeats := Capacity event\<rparr> in
            (case eventService_CreateEvent F db event of
               (Some err, db', _) \<Rightarrow> (Response 500 None, db')
             | (None, db', event') \<Rightarrow> (Response 201 (Some event'), db')))"

text \<open>
  \<open>EventHandler.UpdateEvent\<close>, event_handler.go lines 100-139. \<open>id_param\<close> is what
  \<open>strconv.ParseUint(c.Param("id"), 10, 32)\<close> returned, \<open>None\<close> for its error.
\<close>

definition save_and_respond :: "faults \<Rightarrow> datastore \<Rightarrow> Event \<Rightarrow> response \<times> datastore" where
  "save_and_respond F db event =
     (case eventService_UpdateEvent F db event of
        (Some err, db') \<Rightarrow> (Response 500 None, db')
      | (None, db') \<Rightarrow> (Response 200 (Some event), db'))"

definition EventHandler_UpdateEvent ::
  "faults \<Rightarrow> datastore \<Rightarrow> nat option \<Rightarrow> EventJSON option \<Rightarrow> response \<times> datastore" where
  "EventHandler_UpdateEvent F db id_param body =
     (case id_param of
        None \<Rightarrow> (Response 400 None, db)
      | Some i \<Rightarrow>
          (case body of
             None \<Rightarrow> (Response 400 None, db)
           | Some j \<Rightarrow>
               let event = (bind_event j)\<lparr>ID := i\<rparr> in
               (case eventService_GetEventByID F db i of
                  Inl err \<Rightarrow> (Response 404 None, db)
                | Inr existingEvent \<Rightarrow>
                    if Capacity event < Capacity existingEvent
                    then
                      let registrationsCount =
                            go_sub (Capacity existingEvent) (AvailableSeats existingEvent)
                      in if Capacity event < registrationsCount then (Response 400 None, db)
                         else save_and_respond F db
                                (event\<lparr>AvailableSeats := go_sub (Capacity event) registrationsCount\<rparr>)
                    else save_and_respond F db event)))"

section \<open>Example states\<close>

text \<open>
  A fresh event with two seats, three users and no registration, under the schema of the
  README (with the uniqueness constraint); and an event of capacity 10 that has two live
  registrations.
\<close>

definition concert :: Event where
  "concert = \<lparr>ID = 1, Title = ''concert'', Capacity = 2, AvailableSeats = 2,
              OrganizerID = 9, EventDeleted = False\<rparr>"

definition fresh_db :: datastore where
  "fresh_db = \<lparr>users = {1, 2, 3}, events = [1 \<mapsto> concert], registrations = [],
               next_event_id = 2, unique_user_event = True\<rparr>"

definition festival :: Event where
  "festival = \<lparr>ID = 1, Title = ''festival'', Capacity = 10, AvailableSeats = 8,
               OrganizerID = 9, EventDeleted = False\<rparr>"

definition booked_db :: datastore where
  "booked_db = \<lparr>users = {1, 2, 3}, events = [1 \<mapsto> festival],
                registrations = [\<lparr>UserID = 1, EventID = 1, RegDeleted = False\<rparr>,
                                 \<lparr>UserID = 2, EventID = 1, RegDeleted = False\<rparr>],
                next_event_id = 2, unique_user_event = True\<rparr>"

text \<open>
  The state \<open>fresh_db\<close> reaches when user 1 registers for the concert and then cancels: the
  registration row is still in the table, marked deleted, and both seats are free again.
\<close>

definition cancelled_db :: datastore where
  "cancelled_db = \<lparr>users = {1, 2, 3}, events = [1 \<mapsto> concert],
                   registrations = [\<lparr>UserID = 1, EventID = 1, RegDeleted = True\<rparr>],
                   next_event_id = 2, unique_user_event = True\<rparr>"

text \<open>
  The concert sold out to users 1 and 2, and a datastore that executes every statement
  but fails the commit.
\<close>

definition sold_out_db :: datastore where
  "sold_out_db = \<lparr>users = {1, 2, 3}, events = [1 \<mapsto> concert\<lparr>AvailableSeats := 0\<rparr>],
                  registrations = [\<lparr>UserID = 1, EventID = 1, RegDeleted = False\<rparr>,
                                   \<lparr>UserID = 2, EventID = 1, RegDeleted = False\<rparr>],
                  next_event_id = 2, unique_user_event = True\<rparr>"

definition commit_fails :: faults where
  "commit_fails = no_faults(OpCommit := Some 1)"

text \<open>
  Bodies of requests: a PUT that lowers the festival's capacity from 10 to 7, a PUT that
  keeps the capacity and names a number of seats, and a POST that creates a workshop.
\<close>

definition smaller_festival :: EventJSON where
  "smaller_festival = \<lparr>json_id = 0, json_title = ''festival'', json_capacity = 7,
                        json_available_seats = 0, json_organizer_id = 9\<rparr>"

definition same_festival :: EventJSON where
  "same_festival = \<lparr>json_id = 0, json_title = ''festival'', json_capacity = 10,
                     json_available_seats = 999, json_organizer_id = 9\<rparr>"

definition workshop_json :: EventJSON where
  "workshop_json = \<lparr>json_id = 0, json_title = ''workshop'', json_capacity = 5,
                     json_available_seats = 0, json_organizer_id = 9\<rparr>"

definition workshop :: Event where
  "workshop = \<lparr>ID = 2, Title = ''workshop'', Capacity = 5, AvailableSeats = 5,
               OrganizerID = 9, EventDeleted = False\<rparr>"

section \<open>Serial schedules of register calls\<close>

text \<open>
  The calls \<open>RegisterForEvent(u, e)\<close> for the users of a list, one after the other, on a
  datastore that executes every statement: the outcomes in order and the final state. The
  counters are the ones of \<open>runRegistrationTest\<close>: \<open>successCount\<close> and \<open>eventFullCount\<close>.
\<close>

fun register_all ::
  "datastore \<Rightarrow> nat \<Rightarrow> nat list \<Rightarrow> (error + Registration) list \<times> datastore" where
  "register_all db e [] = ([], db)"
| "register_all db e (u # us) =
     (case RegisterForEvent no_faults db u e of
        (r, db1) \<Rightarrow> (case register_all db1 e us of (rs, db2) \<Rightarrow> (r # rs, db2)))"

definition successCount :: "(error + Registration) list \<Rightarrow> nat" where
  "successCount rs = length (filter (\<lambda>r. \<not> isl r) rs)"

definition eventFullCount :: "(error + Registration) list \<Rightarrow> nat" where
  "eventFullCount rs = length (filter (\<lambda>r. r = Inl ErrEventFull) rs)"

text \<open>No registration row, live or marked deleted, pairs the event with one of the users.\<close>

definition no_rows_for :: "datastore \<Rightarrow> nat \<Rightarrow> nat list \<Rightarrow> bool" where
  "no_rows_for db e us =
     list_all (\<lambda>r. \<not> (EventID r = e \<and> UserID r \<in> set us)) (registrations db)"

section \<open>Basic facts\<close>

lemmas stmt_defs = userRepo_FindByID_def First_registration_def FindByIDForUpdate_def
  Create_registration_def decrease_seats_def increase_seats_def Delete_registration_def
  Begin_def Rollback_def Commit_def

lemmas example_defs = fresh_db_def concert_def booked_db_def festival_def no_faults_def
  cancelled_db_def smaller_festival_def same_festival_def workshop_json_def workshop_def
  sold_out_db_def commit_fails_def

lemmas handler_defs = EventHandler_UpdateEvent_def EventHandler_CreateEvent_def
  save_and_respond_def eventService_UpdateEvent_def eventService_GetEventByID_def
  eventService_CreateEvent_def eventRepo_Update_def eventRepo_FindByID_def
  eventRepo_Create_def bind_event_def

lemmas eval_defs = RegisterForEvent_def CancelRegistration_def stmt_defs example_defs
  live_event_def live_match_def matches_def mark_deleted_def insert_conflicts_def
  available_seats_def live_registrations_def ledger_invariant_def seat_invariant_def Let_def

lemma Rollback_Begin: "Rollback (Begin db) = db"
  by (simp add: Rollback_def Begin_def)

lemma live_event_registrations_update [simp]:
  "live_event (db\<lparr>registrations := rs\<rparr>) i = live_event db i"
  by (simp add: live_event_def)

text \<open>
  The state after \<open>RegisterForEvent\<close>: the state before it, or that state with the seat
  taken and, unless the insert conflicted, the new row.
\<close>

lemma RegisterForEvent_state:
  "snd (RegisterForEvent F db u e) = db
   \<or> (\<exists>ev. live_event db e = Some ev \<and> 0 < AvailableSeats ev
        \<and> snd (RegisterForEvent F db u e) =
            (if insert_conflicts db u e then db
             else db\<lparr>registrations :=
                      registrations db @ [\<lparr>UserID = u, EventID = e, RegDeleted = False\<rparr>]\<rparr>)
            \<lparr>events := (events db)(e \<mapsto> ev\<lparr>AvailableSeats := AvailableSeats ev - 1\<rparr>)\<rparr>)"
  by (simp add: RegisterForEvent_def stmt_defs Let_def live_event_def
           split: option.splits sum.splits if_splits prod.splits)

section \<open>The conditional decrement\<close>

text \<open>
  Claim C5. When the datastore executes the statement, \<open>DecreaseAvailableSeats\<close> succeeds
  exactly when the event has a seat left at that moment; on success the event's
  available_seats is one less, on failure the error is \<open>ErrEventFull\<close> and nothing is
  written; no other event and no registration is touched; and \<open>ErrEventFull\<close> is neither
  \<open>ErrEventNotFound\<close> nor \<open>gorm.ErrRecordNotFound\<close>. An id with no live event has no
  seat left: the update affects zero rows and the error is \<open>ErrEventFull\<close> as well.
  \<open>RegisterForEvent\<close> sends the same statement (\<open>decrease_seats\<close>) and maps zero
  affected rows to \<open>ErrEventFull\<close> in the same way.
\<close>

theorem DecreaseAvailableSeats_conditional:
  assumes "F OpDecreaseSeats = None"
  shows "(fst (DecreaseAvailableSeats F t i) = None \<longleftrightarrow>
            (\<exists>n. available_seats (pending t) i = Some n \<and> 0 < n))
       \<and> (\<forall>n. available_seats (pending t) i = Some n \<and> 0 < n \<longrightarrow>
            available_seats (pending (snd (DecreaseAvailableSeats F t i))) i = Some (n - 1))
       \<and> (fst (DecreaseAvailableSeats F t i) \<noteq> None \<longrightarrow>
            fst (DecreaseAvailableSeats F t i) = Some ErrEventFull
            \<and> snd (DecreaseAvailableSeats F t i) = t)
       \<and> (\<forall>j. j \<noteq> i \<longrightarrow>
            events (pending (snd (DecreaseAvailableSeats F t i))) j = events (pending t) j)
       \<and> registrations (pending (snd (DecreaseAvailableSeats F t i))) = registrations (pending t)
       \<and> ErrEventFull \<noteq> ErrEventNotFound \<and> ErrEventFull \<noteq> ErrRecordNotFound"
  using assms
  by (auto simp: DecreaseAvailableSeats_def decrease_seats_def available_seats_def live_event_def
           split: option.splits if_splits)

theorem DecreaseAvailableSeats_conditional_witness:
  "no_faults OpDecreaseSeats = None
   \<and> available_seats (pending (Begin fresh_db)) 1 = Some 2
   \<and> fst (DecreaseAvailableSeats no_faults (Begin fresh_db) 1) = None
   \<and> available_seats (pending (snd (DecreaseAvailableSeats no_faults (Begin fresh_db) 1))) 1 = Some 1
   \<and> available_seats (pending (Begin sold_out_db)) 1 = Some 0
   \<and> fst (DecreaseAvailableSeats no_faults (Begin sold_out_db) 1) = Some ErrEventFull
   \<and> snd (DecreaseAvailableSeats no_faults (Begin sold_out_db) 1) = Begin sold_out_db"
proof -
  have h: "no_faults OpDecreaseSeats = None" by (simp add: no_faults_def)
  have a: "available_seats (pending (Begin fresh_db)) 1 = Some 2"
    by (simp add: available_seats_def live_event_def Begin_def fresh_db_def concert_def)
  have b: "available_seats (pending (Begin sold_out_db)) 1 = Some 0"
    by (simp add: available_seats_def live_event_def Begin_def sold_out_db_def concert_def)
  have free: "fst (DecreaseAvailableSeats no_faults (Begin fresh_db) 1) = None
     \<and> available_seats (pending (snd (DecreaseAvailableSeats no_faults (Begin fresh_db) 1))) 1
         = Some 1"
    using DecreaseAvailableSeats_conditional [of no_faults "Begin fresh_db" 1] h a by auto
  have full: "fst (DecreaseAvailableSeats no_faults (Begin sold_out_db) 1) = Some ErrEventFull
     \<and> snd (DecreaseAvailableSeats no_faults (Begin sold_out_db) 1) = Begin sold_out_db"
    using DecreaseAvailableSeats_conditional [of no_faults "Begin sold_out_db" 1] h b by auto
  from h a b free full show ?thesis by simp
qed

section \<open>Error outcomes of register\<close>

text \<open>
  Claim C8. Whenever \<open>RegisterForEvent\<close> returns an error, whatever the datastore failed
  or answered, the state after the call is the state before it; and the error is one of
  \<open>ErrUserNotFound\<close>, \<open>ErrAlreadyRegistered\<close>, \<open>ErrEventNotFound\<close>, \<open>ErrEventFull\<close> or an
  error of the datastore.
\<close>

theorem RegisterForEvent_error_keeps_state:
  "fst (RegisterForEvent F db u e) = Inl err \<Longrightarrow>
     snd (RegisterForEvent F db u e) = db
     \<and> (err \<in> {ErrUserNotFound, ErrAlreadyRegistered, ErrEventNotFound, ErrEventFull}
        \<or> (\<exists>c. err = ErrDatastore c))"
  by (auto simp: RegisterForEvent_def stmt_defs Let_def
           split: option.splits sum.splits if_splits prod.splits)

theorem RegisterForEvent_error_keeps_state_witness:
  "fst (RegisterForEvent no_faults booked_db 1 1) = Inl ErrAlreadyRegistered
   \<and> snd (RegisterForEvent no_faults booked_db 1 1) = booked_db
   \<and> fst (RegisterForEvent commit_fails fresh_db 3 1) = Inl (ErrDatastore 1)
   \<and> snd (RegisterForEvent commit_fails fresh_db 3 1) = fresh_db"
proof -
  have h: "fst (RegisterForEvent no_faults booked_db 1 1) = Inl ErrAlreadyRegistered"
    by (simp add: eval_defs)
  have k: "fst (RegisterForEvent commit_fails fresh_db 3 1) = Inl (ErrDatastore 1)"
    by (simp add: eval_defs)
  from RegisterForEvent_error_keeps_state [OF h] RegisterForEvent_error_keeps_state [OF k] h k
  show ?thesis by simp
qed

section \<open>Outcomes of cancel\<close>

text \<open>
  Claim C10. For every pair and every state, \<open>CancelRegistration\<close> returns nil whenever
  the datastore executes its three statements, also when the event does not exist: the
  increment then matches no row, the events table is unchanged, and the result is still
  nil. The only errors it ever returns are the datastore's, and the handler answers 200,
  400 (a body it cannot bind) or 500, never 404 or 409.
\<close>

theorem CancelRegistration_only_datastore_errors:
  "(F OpDeleteRegistration = None \<and> F OpIncreaseSeats = None \<and> F OpCommit = None \<longrightarrow>
      fst (CancelRegistration F db u e) = None)
   \<and> (\<forall>err. fst (CancelRegistration F db u e) = Some err \<longrightarrow> (\<exists>c. err = ErrDatastore c))
   \<and> (live_event db e = None \<longrightarrow> events (snd (CancelRegistration F db u e)) = events db)
   \<and> fst (RegistrationHandler_CancelRegistration F db body) \<in> {200, 400, 500}"
proof -
  have ok: "F OpDeleteRegistration = None \<and> F OpIncreaseSeats = None \<and> F OpCommit = None \<longrightarrow>
      fst (CancelRegistration F db u e) = None"
    by (auto simp: CancelRegistration_def stmt_defs Let_def split: option.splits)
  have errs: "\<forall>err. fst (CancelRegistration F db u e) = Some err \<longrightarrow> (\<exists>c. err = ErrDatastore c)"
    by (auto simp: CancelRegistration_def stmt_defs Let_def split: option.splits)
  have missing: "live_event db e = None \<longrightarrow> events (snd (CancelRegistration F db u e)) = events db"
    by (auto simp: CancelRegistration_def stmt_defs Let_def split: option.splits)
  have status: "fst (RegistrationHandler_CancelRegistration F db body) \<in> {200, 400, 500}"
    by (auto simp: RegistrationHandler_CancelRegistration_def split: option.splits prod.splits)
  from ok errs missing status show ?thesis by blast
qed

theorem CancelRegistration_only_datastore_errors_witness:
  "live_event fresh_db 7 = None
   \<and> fst (CancelRegistration no_faults fresh_db 1 7) = None
   \<and> events (snd (CancelRegistration no_faults fresh_db 1 7)) = events fresh_db
   \<and> fst (RegistrationHandler_CancelRegistration no_faults fresh_db (Some (1, 7))) = 200
   \<and> fst (CancelRegistration commit_fails fresh_db 1 7) = Some (ErrDatastore 1)"
proof -
  have h: "live_event fresh_db 7 = None"
    by (simp add: live_event_def fresh_db_def)
  have f: "no_faults OpDeleteRegistration = None \<and> no_faults OpIncreaseSeats = None
           \<and> no_faults OpCommit = None"
    by (simp add: no_faults_def)
  have s: "fst (CancelRegistration no_faults fresh_db 1 7) = None"
    using CancelRegistration_only_datastore_errors [of no_faults fresh_db 1 7] f by blast
  have k: "events (snd (CancelRegistration no_faults fresh_db 1 7)) = events fresh_db"
    using CancelRegistration_only_datastore_errors [of no_faults fresh_db 1 7] h by blast
  have r: "fst (RegistrationHandler_CancelRegistration no_faults fresh_db (Some (1, 7))) = 200"
    using s by (cases "CancelRegistration no_faults fresh_db 1 7")
      (simp add: RegistrationHandler_CancelRegistration_def)
  have t: "fst (CancelRegistration commit_fails fresh_db 1 7) = Some (ErrDatastore 1)"
    by (simp add: eval_defs)
  from h s k r t show ?thesis by simp
qed

section \<open>Cancelling a pair that has no registration\<close>

text \<open>
  \<open>CancelRegistration\<close> sends the increment whatever the delete matched: when the
  datastore executes the three statements and the event exists, its available_seats is
  one more after the call, for every user.
\<close>

lemma CancelRegistration_adds_seat:
  assumes "F OpDeleteRegistration = None" "F OpIncreaseSeats = None" "F OpCommit = None"
    and "live_event db e = Some ev"
  shows "available_seats (snd (CancelRegistration F db u e)) e = Some (AvailableSeats ev + 1)"
  using assms
  by (simp add: CancelRegistration_def stmt_defs available_seats_def Let_def)
     (simp add: live_event_def split: option.splits if_splits)

text \<open>
  Claim C4, at a failing input. The concert has two seats, both free, and no
  registration. Cancelling for user 3, who never registered, returns nil, and the concert
  then has three available seats: the call is not a no-op.
\<close>

theorem CancelRegistration_unregistered_adds_seat:
  "live_registrations fresh_db 1 = []
   \<and> available_seats fresh_db 1 = Some 2
   \<and> fst (CancelRegistration no_faults fresh_db 3 1) = None
   \<and> available_seats (snd (CancelRegistration no_faults fresh_db 3 1)) 1 = Some 3"
  by (simp add: eval_defs)

section \<open>The Seat Ledger invariant\<close>

text \<open>
  \<open>RegisterForEvent\<close> keeps \<open>0 \<le> available_seats \<le> capacity\<close> for every event, whatever
  the datastore fails.
\<close>

lemma RegisterForEvent_preserves_ledger_invariant:
  "ledger_invariant db j \<Longrightarrow> ledger_invariant (snd (RegisterForEvent F db u e)) j"
  using RegisterForEvent_state [of F db u e]
  by (auto simp: ledger_invariant_def live_event_def split: option.splits if_splits)

text \<open>
  Claim C3, at a failing input. The fresh concert satisfies the Seat Ledger invariant;
  after the cancel of a pair that has no registration it has 3 available seats of a
  capacity of 2, and the invariant is broken.
\<close>

theorem CancelRegistration_breaks_ledger_invariant:
  "ledger_invariant fresh_db 1
   \<and> \<not> ledger_invariant (snd (CancelRegistration no_faults fresh_db 3 1)) 1"
  by (simp add: eval_defs)

section \<open>The core invariant\<close>

text \<open>
  \<open>RegisterForEvent\<close> keeps \<open>capacity - available_seats = count(live registrations)\<close>
  for every event when its insert stores the row, and \<open>CancelRegistration\<close> keeps it when
  the pair has exactly one live registration.
\<close>

lemma RegisterForEvent_preserves_seat_invariant:
  assumes "\<not> insert_conflicts db u e" and "seat_invariant db j"
  shows "seat_invariant (snd (RegisterForEvent F db u e)) j"
  using RegisterForEvent_state [of F db u e] assms
  by (auto simp: seat_invariant_def live_event_def live_registrations_def
           split: option.splits if_splits)

lemma live_after_mark_other:
  "j \<noteq> e \<Longrightarrow>
   filter (\<lambda>r. EventID r = j \<and> \<not> RegDeleted r) (map (mark_deleted u e) rs)
     = filter (\<lambda>r. EventID r = j \<and> \<not> RegDeleted r) rs"
  by (induction rs) (auto simp: mark_deleted_def live_match_def matches_def)

lemma live_after_mark_count:
  "length (filter (\<lambda>r. EventID r = e \<and> \<not> RegDeleted r) (map (mark_deleted u e) rs))
     + length (filter (live_match u e) rs)
   = length (filter (\<lambda>r. EventID r = e \<and> \<not> RegDeleted r) rs)"
  by (induction rs) (auto simp: mark_deleted_def live_match_def matches_def)

lemma CancelRegistration_preserves_seat_invariant:
  assumes one: "length (filter (live_match u e) (registrations db)) = 1"
    and inv: "seat_invariant db j"
  shows "seat_invariant (snd (CancelRegistration F db u e)) j"
proof (cases "fst (CancelRegistration F db u e) = None")
  case False
  then have "snd (CancelRegistration F db u e) = db"
    by (auto simp: CancelRegistration_def stmt_defs Let_def split: option.splits)
  with inv show ?thesis by simp
next
  case True
  show ?thesis
  proof (cases "j = e")
    case False
    with inv live_after_mark_other [of j e u "registrations db"] show ?thesis
      by (auto simp: CancelRegistration_def stmt_defs Let_def seat_invariant_def
            live_event_def live_registrations_def split: option.splits if_splits)
  next
    case same: True
    from live_after_mark_count [of e u "registrations db"] one
    have "int (length (filter (\<lambda>r. EventID r = e \<and> \<not> RegDeleted r)
                 (map (mark_deleted u e) (registrations db))))
          = int (length (filter (\<lambda>r. EventID r = e \<and> \<not> RegDeleted r) (registrations db))) - 1"
      by simp
    with inv same show ?thesis
      by (auto simp: CancelRegistration_def stmt_defs Let_def seat_invariant_def
            live_event_def live_registrations_def split: option.splits if_splits)
  qed
qed

text \<open>
  Claim C2, at a failing input. The festival has capacity 10, 8 available seats and two
  live registrations (users 1 and 2): the invariant holds. User 3 has none; after
  \<open>CancelRegistration(3, 1)\<close> the festival has 9 available seats and still two live
  registrations, and the invariant is broken.
\<close>

theorem CancelRegistration_breaks_seat_invariant:
  "seat_invariant booked_db 1
   \<and> \<not> seat_invariant (snd (CancelRegistration no_faults booked_db 3 1)) 1"
  by (simp add: eval_defs)

section \<open>The swallowed insert conflict\<close>

text \<open>
  When the insert conflicts and the checks before it pass, \<open>RegisterForEvent\<close> returns the
  registration with a nil error, stores no row and takes a seat.
\<close>

lemma RegisterForEvent_conflict_takes_seat:
  assumes "insert_conflicts db u e" "u \<in> users db" "live_event db e = Some ev"
    "0 < AvailableSeats ev" "find (live_match u e) (registrations db) = None"
  shows "fst (RegisterForEvent no_faults db u e) = Inr \<lparr>UserID = u, EventID = e, RegDeleted = False\<rparr>
    \<and> registrations (snd (RegisterForEvent no_faults db u e)) = registrations db
    \<and> available_seats (snd (RegisterForEvent no_faults db u e)) e = Some (AvailableSeats ev - 1)"
  using assms
  by (simp add: RegisterForEvent_def stmt_defs no_faults_def available_seats_def Let_def)
     (simp add: live_event_def split: option.splits if_splits)

lemma cancelled_db_reached:
  "snd (CancelRegistration no_faults (snd (RegisterForEvent no_faults fresh_db 1 1)) 1 1)
     = cancelled_db"
  by (simp add: eval_defs)

text \<open>
  Claim C6, at a failing input. In \<open>cancelled_db\<close> (user 1 registered for the concert and
  cancelled, under the schema with the uniqueness constraint) the insert of the pair (1, 1)
  conflicts with the row marked deleted. \<open>RegisterForEvent(1, 1)\<close> swallows the conflict and
  returns the registration with a nil error, yet the concert's available_seats goes from 2
  to 1 although no live registration exists afterwards: the pair is charged a seat.
\<close>

theorem RegisterForEvent_conflict_charges_seat:
  "insert_conflicts cancelled_db 1 1
   \<and> available_seats cancelled_db 1 = Some 2
   \<and> fst (RegisterForEvent no_faults cancelled_db 1 1)
        = Inr \<lparr>UserID = 1, EventID = 1, RegDeleted = False\<rparr>
   \<and> available_seats (snd (RegisterForEvent no_faults cancelled_db 1 1)) 1 = Some 1
   \<and> live_registrations (snd (RegisterForEvent no_faults cancelled_db 1 1)) 1 = []"
  by (simp add: eval_defs)

section \<open>Registering twice\<close>

lemma find_append_new:
  "find P xs = None \<Longrightarrow> P x \<Longrightarrow> find P (xs @ [x]) = Some x"
  by (induction xs) (auto split: if_splits)

text \<open>
  Where the insert of the first call stores its row, the duplicate check does its work: for
  a user that exists, an event that exists with a seat left, and a pair that has no live
  registration, two calls of \<open>RegisterForEvent(u, e)\<close> in sequence on a datastore that
  executes every statement return the registration, then \<open>ErrAlreadyRegistered\<close>, and
  after both the event's available_seats is one less than before the first.
\<close>

lemma RegisterForEvent_twice_stored:
  assumes user: "u \<in> users db"
    and event: "live_event db e = Some ev"
    and seats: "0 < AvailableSeats ev"
    and fresh: "find (live_match u e) (registrations db) = None"
    and stored: "\<not> insert_conflicts db u e"
  shows "fst (RegisterForEvent no_faults db u e) = Inr \<lparr>UserID = u, EventID = e, RegDeleted = False\<rparr>
    \<and> fst (RegisterForEvent no_faults (snd (RegisterForEvent no_faults db u e)) u e)
          = Inl ErrAlreadyRegistered
    \<and> available_seats db e = Some (AvailableSeats ev)
    \<and> available_seats
          (snd (RegisterForEvent no_faults (snd (RegisterForEvent no_faults db u e)) u e)) e
          = Some (AvailableSeats ev - 1)"
proof -
  let ?r = "\<lparr>UserID = u, EventID = e, RegDeleted = False\<rparr>"
  let ?db1 = "db\<lparr>registrations := registrations db @ [?r],
                  events := (events db)(e \<mapsto> ev\<lparr>AvailableSeats := AvailableSeats ev - 1\<rparr>)\<rparr>"
  have ev_raw: "events db e = Some ev" and live: "\<not> EventDeleted ev"
    using event by (auto simp: live_event_def split: option.splits if_splits)
  have first: "RegisterForEvent no_faults db u e = (Inr ?r, ?db1)"
    using user event seats fresh stored
    by (simp add: RegisterForEvent_def stmt_defs no_faults_def Let_def live_event_def ev_raw live)
  have found: "find (live_match u e) (registrations ?db1) = Some ?r"
    using fresh by (simp add: find_append_new live_match_def matches_def)
  have second: "RegisterForEvent no_faults ?db1 u e = (Inl ErrAlreadyRegistered, ?db1)"
    using user found
    by (simp add: RegisterForEvent_def stmt_defs no_faults_def Let_def)
  have before: "available_seats db e = Some (AvailableSeats ev)"
    using event by (simp add: available_seats_def)
  have after: "available_seats ?db1 e = Some (AvailableSeats ev - 1)"
    using live by (simp add: available_seats_def live_event_def)
  from first second before after show ?thesis by simp
qed

lemma RegisterForEvent_twice_stored_example:
  "3 \<in> users fresh_db \<and> live_event fresh_db 1 = Some concert \<and> 0 < AvailableSeats concert
   \<and> find (live_match 3 1) (registrations fresh_db) = None
   \<and> \<not> insert_conflicts fresh_db 3 1
   \<and> fst (RegisterForEvent no_faults fresh_db 3 1) = Inr \<lparr>UserID = 3, EventID = 1, RegDeleted = False\<rparr>
   \<and> fst (RegisterForEvent no_faults (snd (RegisterForEvent no_faults fresh_db 3 1)) 3 1)
          = Inl ErrAlreadyRegistered
   \<and> available_seats
          (snd (RegisterForEvent no_faults (snd (RegisterForEvent no_faults fresh_db 3 1)) 3 1)) 1
          = Some 1"
proof -
  have a: "3 \<in> users fresh_db" by (simp add: fresh_db_def)
  have b: "live_event fresh_db 1 = Some concert"
    by (simp add: live_event_def fresh_db_def concert_def)
  have c: "0 < AvailableSeats concert" by (simp add: concert_def)
  have d: "find (live_match 3 1) (registrations fresh_db) = None" by (simp add: fresh_db_def)
  have e: "\<not> insert_conflicts fresh_db 3 1" by (simp add: insert_conflicts_def fresh_db_def)
  have v: "AvailableSeats concert - 1 = 1" by (simp add: concert_def)
  from RegisterForEvent_twice_stored [OF a b c d e] a b c d e v show ?thesis by simp
qed

text \<open>
  Claim C7, at a failing input. In \<open>cancelled_db\<close> (user 1 registered for the concert and
  cancelled, under the schema with the uniqueness constraint) user 1 exists, the concert has
  both seats free and the pair (1, 1) has no live registration. Two calls of
  \<open>RegisterForEvent(1, 1)\<close> in sequence both return the registration with a nil error:
  the second is not answered \<open>ErrAlreadyRegistered\<close>, since the first insert conflicted
  with the row marked deleted and stored nothing. The concert's available_seats goes from 2
  to 0, decremented twice, and no live registration exists afterwards.
\<close>

theorem RegisterForEvent_twice_after_cancel:
  "1 \<in> users cancelled_db
   \<and> find (live_match 1 1) (registrations cancelled_db) = None
   \<and> available_seats cancelled_db 1 = Some 2
   \<and> fst (RegisterForEvent no_faults cancelled_db 1 1)
        = Inr \<lparr>UserID = 1, EventID = 1, RegDeleted = False\<rparr>
   \<and> fst (RegisterForEvent no_faults (snd (RegisterForEvent no_faults cancelled_db 1 1)) 1 1)
        = Inr \<lparr>UserID = 1, EventID = 1, RegDeleted = False\<rparr>
   \<and> available_seats
        (snd (RegisterForEvent no_faults (snd (RegisterForEvent no_faults cancelled_db 1 1)) 1 1)) 1
        = Some 0
   \<and> live_registrations
        (snd (RegisterForEvent no_faults (snd (RegisterForEvent no_faults cancelled_db 1 1)) 1 1)) 1
        = []"
  by (simp add: eval_defs)

section \<open>What moves available_seats\<close>

lemma CreateEvent_handler_seats:
  "fst (EventHandler_CreateEvent F db body) = Response 201 (Some ev') \<Longrightarrow>
     live_event (snd (EventHandler_CreateEvent F db body)) (ID ev') = Some ev'
     \<and> AvailableSeats ev' = Capacity ev'"
  by (auto simp: handler_defs Let_def live_event_def split: option.splits if_splits prod.splits)

lemma CreateEvent_service_seats:
  "eventService_CreateEvent F db event = (None, db', ev') \<Longrightarrow>
     events db' (ID ev') = Some ev' \<and> AvailableSeats ev' = Capacity ev'
     \<and> Capacity ev' = Capacity event"
  by (auto simp: handler_defs Let_def split: option.splits if_splits)

lemma RegisterForEvent_seats:
  "available_seats (snd (RegisterForEvent F db u e)) k = available_seats db k
   \<or> (k = e \<and> (\<exists>n. available_seats db e = Some n
                 \<and> available_seats (snd (RegisterForEvent F db u e)) e = Some (n - 1)))"
  using RegisterForEvent_state [of F db u e]
  by (auto simp: available_seats_def live_event_def split: option.splits if_splits)

lemma CancelRegistration_seats:
  "available_seats (snd (CancelRegistration F db u e)) k = available_seats db k
   \<or> (k = e \<and> (\<exists>n. available_seats db e = Some n
                 \<and> available_seats (snd (CancelRegistration F db u e)) e = Some (n + 1)))"
  by (auto simp: CancelRegistration_def stmt_defs Let_def available_seats_def live_event_def
           split: option.splits if_splits)

lemma UpdateEvent_lower_capacity_seats:
  assumes "i \<noteq> 0" "live_event db i = Some old" "json_capacity j < Capacity old"
    "fst (EventHandler_UpdateEvent F db (Some i) (Some j)) = Response 200 x"
  shows "available_seats (snd (EventHandler_UpdateEvent F db (Some i) (Some j))) i
           = Some (go_sub (json_capacity j) (go_sub (Capacity old) (AvailableSeats old)))"
  using assms
  by (auto simp: handler_defs Let_def available_seats_def live_event_def
           split: option.splits sum.splits if_splits prod.splits)

text \<open>
  An UpdateEvent that does not lower the capacity writes the body's available_seats as it
  is: the festival, with two live registrations and 8 seats left, ends with 999.
\<close>

lemma UpdateEvent_writes_body_seats:
  "length (live_registrations booked_db 1) = 2
   \<and> available_seats booked_db 1 = Some 8
   \<and> available_seats
        (snd (EventHandler_UpdateEvent no_faults booked_db (Some 1) (Some same_festival))) 1
        = Some 999"
  by (simp add: handler_defs example_defs live_registrations_def
        available_seats_def live_event_def go_sub_def wrap64_def Let_def)

text \<open>
  Claim C9 as stated fails: available_seats is not only moved by one through register and
  cancel. The festival has two live registrations and 8 seats left of 10; the PUT that
  lowers its capacity to 7 is answered 200 and leaves it 5 seats, a move of three made by
  the update handler while registrations exist.
\<close>

theorem UpdateEvent_moves_seats_counterexample:
  "length (live_registrations booked_db 1) = 2
   \<and> available_seats booked_db 1 = Some 8
   \<and> fst (EventHandler_UpdateEvent no_faults booked_db (Some 1) (Some smaller_festival))
        = Response 200 (Some (festival\<lparr>Capacity := 7, AvailableSeats := 5\<rparr>))
   \<and> available_seats
        (snd (EventHandler_UpdateEvent no_faults booked_db (Some 1) (Some smaller_festival))) 1
        = Some 5"
  by (simp add: handler_defs example_defs live_registrations_def
        available_seats_def live_event_def go_sub_def wrap64_def Let_def)

text \<open>
  Claim C9, amended. An event that CreateEvent stores (through the handler or the service)
  has available_seats equal to its capacity. A register call changes the available_seats
  of its event by -1 or not at all, a cancel call by +1 or not at all, and neither changes
  another event's. An UpdateEvent that lowers the capacity and is answered 200 sets
  available_seats to the new capacity minus (old capacity minus old available_seats), in
  Go's arithmetic.
\<close>

theorem available_seats_moves:
  "(fst (EventHandler_CreateEvent F db body) = Response 201 (Some ev') \<longrightarrow>
      live_event (snd (EventHandler_CreateEvent F db body)) (ID ev') = Some ev'
      \<and> AvailableSeats ev' = Capacity ev')
   \<and> (eventService_CreateEvent F db event = (None, db'', ev'') \<longrightarrow>
      events db'' (ID ev'') = Some ev'' \<and> AvailableSeats ev'' = Capacity ev''
      \<and> Capacity ev'' = Capacity event)
   \<and> (available_seats (snd (RegisterForEvent F db u e)) k = available_seats db k
      \<or> (k = e \<and> (\<exists>n. available_seats db e = Some n
                    \<and> available_seats (snd (RegisterForEvent F db u e)) e = Some (n - 1))))
   \<and> (available_seats (snd (CancelRegistration F db u e)) k = available_seats db k
      \<or> (k = e \<and> (\<exists>n. available_seats db e = Some n
                    \<and> available_seats (snd (CancelRegistration F db u e)) e = Some (n + 1))))
   \<and> (i \<noteq> 0 \<and> live_event db i = Some old \<and> json_capacity j < Capacity old
       \<and> fst (EventHandler_UpdateEvent F db (Some i) (Some j)) = Response 200 x \<longrightarrow>
      available_seats (snd (EventHandler_UpdateEvent F db (Some i) (Some j))) i
        = Some (go_sub (json_capacity j) (go_sub (Capacity old) (AvailableSeats old))))"
  using CreateEvent_handler_seats [of F db body ev']
    CreateEvent_service_seats [of F db event db'' ev'']
    RegisterForEvent_seats [of F db u e k]
    CancelRegistration_seats [of F db u e k]
    UpdateEvent_lower_capacity_seats [of i db old j F x]
  by blast

theorem available_seats_moves_witness:
  "eventService_CreateEvent no_faults fresh_db (festival\<lparr>ID := 0\<rparr>)
      = (None, fresh_db\<lparr>next_event_id := 3,
                           events := (events fresh_db)(2 \<mapsto> festival\<lparr>ID := 2, AvailableSeats := 10\<rparr>)\<rparr>,
         festival\<lparr>ID := 2, AvailableSeats := 10\<rparr>)
   \<and> AvailableSeats (festival\<lparr>ID := 2, AvailableSeats := 10\<rparr>) = Capacity festival
   \<and> fst (EventHandler_CreateEvent no_faults booked_db (Some workshop_json))
      = Response 201 (Some workshop)
   \<and> live_event (snd (EventHandler_CreateEvent no_faults booked_db (Some workshop_json))) 2
      = Some workshop
   \<and> AvailableSeats workshop = Capacity workshop
   \<and> live_event booked_db 1 = Some festival
   \<and> json_capacity smaller_festival < Capacity festival
   \<and> fst (EventHandler_UpdateEvent no_faults booked_db (Some 1) (Some smaller_festival))
      = Response 200 (Some (festival\<lparr>Capacity := 7, AvailableSeats := 5\<rparr>))
   \<and> available_seats
        (snd (EventHandler_UpdateEvent no_faults booked_db (Some 1) (Some smaller_festival))) 1
      = Some 5"
proof -
  have c: "fst (EventHandler_CreateEvent no_faults booked_db (Some workshop_json))
             = Response 201 (Some workshop)"
    by (simp add: handler_defs example_defs Let_def)
  have l: "live_event booked_db 1 = Some festival"
    by (simp add: live_event_def booked_db_def festival_def)
  have lt: "json_capacity smaller_festival < Capacity festival"
    by (simp add: smaller_festival_def festival_def)
  have r: "fst (EventHandler_UpdateEvent no_faults booked_db (Some 1) (Some smaller_festival))
             = Response 200 (Some (festival\<lparr>Capacity := 7, AvailableSeats := 5\<rparr>))"
    by (simp add: handler_defs example_defs live_event_def go_sub_def wrap64_def Let_def)
  have g: "go_sub (json_capacity smaller_festival)
             (go_sub (Capacity festival) (AvailableSeats festival)) = 5"
    by (simp add: smaller_festival_def festival_def go_sub_def wrap64_def)
  have i: "ID workshop = 2" by (simp add: workshop_def)
  have s: "eventService_CreateEvent no_faults fresh_db (festival\<lparr>ID := 0\<rparr>)
      = (None, fresh_db\<lparr>next_event_id := 3,
                           events := (events fresh_db)(2 \<mapsto> festival\<lparr>ID := 2, AvailableSeats := 10\<rparr>)\<rparr>,
         festival\<lparr>ID := 2, AvailableSeats := 10\<rparr>)"
    by (simp add: handler_defs example_defs Let_def)
  have sc: "AvailableSeats (festival\<lparr>ID := 2, AvailableSeats := 10\<rparr>) = Capacity festival"
    using available_seats_moves [of no_faults fresh_db _ _ "festival\<lparr>ID := 0\<rparr>"] s by simp
  from available_seats_moves [of no_faults booked_db "Some workshop_json" workshop _ _ _ _ _ _ 1
         festival smaller_festival] c l lt r g i s sc
  show ?thesis by simp
qed

section \<open>Serial schedules\<close>

text \<open>
  The calls of distinct users against one event, run one after the other on a datastore
  that executes every statement. The concurrent form of the property depends on how the
  datastore's row lock orders the transactions and is not stated in this sequential model.
\<close>

lemma find_None_no_rows:
  "list_all (\<lambda>r. \<not> (EventID r = e \<and> UserID r \<in> set (u # us))) rs \<Longrightarrow>
   find (live_match u e) rs = None"
  by (induction rs) (auto simp: live_match_def matches_def)

lemma list_ex_no_rows:
  "list_all (\<lambda>r. \<not> (EventID r = e \<and> UserID r \<in> set (u # us))) rs \<Longrightarrow>
   \<not> list_ex (matches u e) rs"
  by (induction rs) (auto simp: matches_def)

lemma list_all_weaken_users:
  "list_all (\<lambda>r. \<not> (EventID r = e \<and> UserID r \<in> set (u # us))) rs \<Longrightarrow>
   list_all (\<lambda>r. \<not> (EventID r = e \<and> UserID r \<in> set us)) rs"
  by (induction rs) auto

lemma register_step_full:
  assumes "u \<in> users db" "live_event db e = Some ev" "AvailableSeats ev \<le> 0"
    "no_rows_for db e (u # us)"
  shows "RegisterForEvent no_faults db u e = (Inl ErrEventFull, db)"
  using assms find_None_no_rows [of e u us "registrations db"]
  by (simp add: RegisterForEvent_def stmt_defs no_faults_def Let_def no_rows_for_def)

lemma register_step_ok:
  assumes "u \<in> users db" "live_event db e = Some ev" "0 < AvailableSeats ev"
    "no_rows_for db e (u # us)"
  shows "RegisterForEvent no_faults db u e =
           (Inr \<lparr>UserID = u, EventID = e, RegDeleted = False\<rparr>,
            db\<lparr>registrations := registrations db @ [\<lparr>UserID = u, EventID = e, RegDeleted = False\<rparr>],
               events := (events db)(e \<mapsto> ev\<lparr>AvailableSeats := AvailableSeats ev - 1\<rparr>)\<rparr>)"
proof -
  have ev_raw: "events db e = Some ev" and live: "\<not> EventDeleted ev"
    using assms(2) by (auto simp: live_event_def split: option.splits if_splits)
  have f: "find (live_match u e) (registrations db) = None"
    using assms(4) find_None_no_rows [of e u us "registrations db"] by (simp add: no_rows_for_def)
  have c: "\<not> insert_conflicts db u e"
    using assms(4) list_ex_no_rows [of e u us "registrations db"]
    by (simp add: no_rows_for_def insert_conflicts_def)
  show ?thesis
    using assms(1,3) f c
    by (simp add: RegisterForEvent_def stmt_defs no_faults_def Let_def live_event_def ev_raw live)
qed

text \<open>
  With \<open>a\<close> seats available and \<open>N\<close> distinct existing users, none of whom has a row for
  the event, the serial schedule admits \<open>min a N\<close> of them, answers \<open>ErrEventFull\<close> to the
  others and to nobody anything else, and leaves \<open>a - min a N\<close> seats.
\<close>

lemma register_all_serial:
  assumes "distinct us" "set us \<subseteq> users db" "live_event db e = Some ev"
    "0 \<le> AvailableSeats ev" "no_rows_for db e us"
  shows "successCount (fst (register_all db e us)) = min (nat (AvailableSeats ev)) (length us)
       \<and> eventFullCount (fst (register_all db e us))
           = length us - min (nat (AvailableSeats ev)) (length us)
       \<and> length (fst (register_all db e us)) = length us
       \<and> available_seats (snd (register_all db e us)) e
           = Some (AvailableSeats ev - int (min (nat (AvailableSeats ev)) (length us)))"
  using assms
proof (induction us arbitrary: db ev)
  case Nil
  then show ?case by (simp add: successCount_def eventFullCount_def available_seats_def)
next
  case (Cons u us)
  have u: "u \<in> users db" and us: "set us \<subseteq> users db" and d: "distinct us" and nu: "u \<notin> set us"
    using Cons.prems by auto
  show ?case
  proof (cases "0 < AvailableSeats ev")
    case False
    then have z: "AvailableSeats ev = 0" using Cons.prems(4) by simp
    have step: "RegisterForEvent no_faults db u e = (Inl ErrEventFull, db)"
      using register_step_full [OF u Cons.prems(3) _ Cons.prems(5)] z by simp
    have rest: "no_rows_for db e us"
      using Cons.prems(5) list_all_weaken_users [of e u us "registrations db"]
      by (simp add: no_rows_for_def)
    from Cons.IH [OF d us Cons.prems(3) Cons.prems(4) rest] step z
    show ?thesis
      by (auto simp: successCount_def eventFullCount_def split: prod.splits)
  next
    case True
    let ?r = "\<lparr>UserID = u, EventID = e, RegDeleted = False\<rparr>"
    let ?ev1 = "ev\<lparr>AvailableSeats := AvailableSeats ev - 1\<rparr>"
    let ?db1 = "db\<lparr>registrations := registrations db @ [?r], events := (events db)(e \<mapsto> ?ev1)\<rparr>"
    have step: "RegisterForEvent no_faults db u e = (Inr ?r, ?db1)"
      using register_step_ok [OF u Cons.prems(3) True Cons.prems(5)] .
    have live: "\<not> EventDeleted ev"
      using Cons.prems(3) by (auto simp: live_event_def split: option.splits if_splits)
    have ev1: "live_event ?db1 e = Some ?ev1"
      using live by (simp add: live_event_def)
    have us1: "set us \<subseteq> users ?db1" using us by simp
    have nn: "0 \<le> AvailableSeats ?ev1" using True by simp
    have rest: "no_rows_for ?db1 e us"
      using Cons.prems(5) list_all_weaken_users [of e u us "registrations db"] nu
      by (simp add: no_rows_for_def)
    have m: "min (nat (AvailableSeats ev)) (Suc (length us))
               = Suc (min (nat (AvailableSeats ev - 1)) (length us))"
      using True by (simp add: min_def) linarith
    from Cons.IH [OF d us1 ev1 nn rest] step m True
    show ?thesis
      by (auto simp: successCount_def eventFullCount_def split: prod.splits)
  qed
qed

text \<open>
  The scenario of the concurrency test in a serial order: capacity \<open>C\<close>, all seats free,
  \<open>N > C\<close> users: \<open>C\<close> successes, \<open>N - C\<close> times \<open>ErrEventFull\<close>, no seat left.
\<close>

lemma register_all_overbooked:
  assumes "distinct us" "set us \<subseteq> users db" "live_event db e = Some ev"
    "AvailableSeats ev = Capacity ev" "0 \<le> Capacity ev" "nat (Capacity ev) < length us"
    "no_rows_for db e us"
  shows "successCount (fst (register_all db e us)) = nat (Capacity ev)
       \<and> eventFullCount (fst (register_all db e us)) = length us - nat (Capacity ev)
       \<and> available_seats (snd (register_all db e us)) e = Some 0"
proof -
  have nn: "0 \<le> AvailableSeats ev" using assms(4,5) by simp
  have m: "min (nat (AvailableSeats ev)) (length us) = nat (Capacity ev)"
    using assms(4,6) by simp
  from register_all_serial [OF assms(1) assms(2) assms(3) nn assms(7)] m assms(4,5)
  show ?thesis by simp
qed

end
